theory Spec2Isabelle
  imports Main "HOL-Library.Char_ord"
begin

section \<open>Tokens (lexer.ts)\<close>

text \<open>
  The enum \<open>TokenType\<close> of lexer.ts. The value of every member is the string of its
  own name, which is what a template literal prints (\<open>type_name\<close>).
\<close>

datatype TokenType =
    STRING | NUMBER | BOOLEAN | IDENTIFIER
  | LET | IF | ELSE | FOR | WHILE | FN | RETURN | TRUE | FALSE
  | PLUS | MINUS | STAR | SLASH | PERCENT | EQ | NEQ | LT | GT | LTE | GTE
  | AND | OR | NOT | ASSIGN
  | LPAREN | RPAREN | LBRACE | RBRACE | LBRACKET | RBRACKET
  | COMMA | DOT | COLON | SEMICOLON | ARROW
  | TEMPLATE_START | TEMPLATE_END
  | NEWLINE | EOF | ERROR

fun type_name :: "TokenType \<Rightarrow> string" where
  "type_name STRING = ''STRING''"
| "type_name NUMBER = ''NUMBER''"
| "type_name BOOLEAN = ''BOOLEAN''"
| "type_name IDENTIFIER = ''IDENTIFIER''"
| "type_name LET = ''LET''"
| "type_name IF = ''IF''"
| "type_name ELSE = ''ELSE''"
| "type_name FOR = ''FOR''"
| "type_name WHILE = ''WHILE''"
| "type_name FN = ''FN''"
| "type_name RETURN = ''RETURN''"
| "type_name TRUE = ''TRUE''"
| "type_name FALSE = ''FALSE''"
| "type_name PLUS = ''PLUS''"
| "type_name MINUS = ''MINUS''"
| "type_name STAR = ''STAR''"
| "type_name SLASH = ''SLASH''"
| "type_name PERCENT = ''PERCENT''"
| "type_name EQ = ''EQ''"
| "type_name NEQ = ''NEQ''"
| "type_name LT = ''LT''"
| "type_name GT = ''GT''"
| "type_name LTE = ''LTE''"
| "type_name GTE = ''GTE''"
| "type_name AND = ''AND''"
| "type_name OR = ''OR''"
| "type_name NOT = ''NOT''"
| "type_name ASSIGN = ''ASSIGN''"
| "type_name LPAREN = ''LPAREN''"
| "type_name RPAREN = ''RPAREN''"
| "type_name LBRACE = ''LBRACE''"
| "type_name RBRACE = ''RBRACE''"
| "type_name LBRACKET = ''LBRACKET''"
| "type_name RBRACKET = ''RBRACKET''"
| "type_name COMMA = ''COMMA''"
| "type_name DOT = ''DOT''"
| "type_name COLON = ''COLON''"
| "type_name SEMICOLON = ''SEMICOLON''"
| "type_name ARROW = ''ARROW''"
| "type_name TEMPLATE_START = ''TEMPLATE_START''"
| "type_name TEMPLATE_END = ''TEMPLATE_END''"
| "type_name NEWLINE = ''NEWLINE''"
| "type_name EOF = ''EOF''"
| "type_name ERROR = ''ERROR''"

text \<open>
  The interface \<open>Token\<close>. Lines are counted from 1 by the lexer; a column is the
  lexer's column counter minus the length of the token's text, which can be negative.
\<close>

record Token =
  tok_type :: TokenType
  tok_value :: string
  tok_line :: nat
  tok_column :: int

section \<open>Syntax tree (parser.ts)\<close>

text \<open>
  A literal's value is \<open>string | number | boolean | null\<close>. A number literal is
  \<open>parseFloat\<close> of the token's text; the double itself is not modelled, \<open>NumberValue s\<close>
  stands for \<open>parseFloat s\<close>.
\<close>

datatype LiteralValue =
    StringValue string
  | NumberValue string
  | BooleanValue bool
  | NullValue

datatype ASTNode =
    ProgramNode "ASTNode list"
  | LetNode string ASTNode
  | FunctionNode string "string list" ASTNode
  | IfNode ASTNode ASTNode "ASTNode option"
  | ForNode string ASTNode ASTNode
  | WhileNode ASTNode ASTNode
  | ReturnNode "ASTNode option"
  | BinaryExprNode string ASTNode ASTNode
  | UnaryExprNode string ASTNode
  | CallNode ASTNode "ASTNode list"
  | IdentifierNode string
  | LiteralNode LiteralValue
  | ArrayNode "ASTNode list"
  | ObjectNode "(string \<times> ASTNode) list"
  | TemplateNode string
  | BlockNode "ASTNode list"

section \<open>Errors and results\<close>

text \<open>
  \<open>Error m\<close> is \<open>new Error(m)\<close>; \<open>TypeError m\<close> is what the runtime throws when a
  property of \<open>undefined\<close> is read. A call that throws returns \<open>Inl\<close>.
  The recursive parsing functions carry a bound on the depth of calls (fuel): \<open>None\<close> is
  "the bound was reached", \<open>Some (Inl e)\<close> is "threw e", \<open>Some (Inr x)\<close> is "returned x".
\<close>

datatype error = Error string | TypeError string

fun message :: "error \<Rightarrow> string" where
  "message (Error m) = m"
| "message (TypeError m) = m"

type_synonym 'a result = "(error + 'a) option"

definition ebind :: "error + 'a \<Rightarrow> ('a \<Rightarrow> error + 'b) \<Rightarrow> error + 'b" where
  "ebind m f = (case m of Inl e \<Rightarrow> Inl e | Inr x \<Rightarrow> f x)"

definition bnd :: "'a result \<Rightarrow> ('a \<Rightarrow> 'b result) \<Rightarrow> 'b result" where
  "bnd m f = (case m of None \<Rightarrow> None | Some (Inl e) \<Rightarrow> Some (Inl e) | Some (Inr x) \<Rightarrow> f x)"

definition lift :: "error + 'a \<Rightarrow> 'a result" where
  "lift m = Some m"

definition ret :: "'a \<Rightarrow> 'a result" where
  "ret x = Some (Inr x)"

section \<open>Parser helpers\<close>

text \<open>
  The parser's state is the token array, which it never changes, and \<open>pos\<close>. Every
  method takes both and returns the new \<open>pos\<close> with its value. \<open>tokens[i]\<close> out of
  range is \<open>undefined\<close> (\<open>None\<close>), and reading a property of it throws.
\<close>

definition peek :: "Token list \<Rightarrow> nat \<Rightarrow> Token option" where
  "peek ts pos = (if pos < length ts then Some (ts ! pos) else None)"

definition previous :: "Token list \<Rightarrow> nat \<Rightarrow> Token option" where
  "previous ts pos = (if 0 < pos \<and> pos - 1 < length ts then Some (ts ! (pos - 1)) else None)"

text \<open>What the runtime throws when property \<open>name\<close> of \<open>undefined\<close> is read.\<close>

definition type_error :: "string \<Rightarrow> error" where
  "type_error name =
     TypeError (''Cannot read properties of undefined (reading '' @ [CHR 0x27] @ name @ [CHR 0x27] @ '')'')"

definition property :: "Token option \<Rightarrow> string \<Rightarrow> error + Token" where
  "property t name = (case t of None \<Rightarrow> Inl (type_error name) | Some tok \<Rightarrow> Inr tok)"

definition isAtEnd :: "Token list \<Rightarrow> nat \<Rightarrow> error + bool" where
  "isAtEnd ts pos = ebind (property (peek ts pos) ''type'') (\<lambda>t. Inr (tok_type t = EOF))"

definition check :: "TokenType \<Rightarrow> Token list \<Rightarrow> nat \<Rightarrow> error + bool" where
  "check ty ts pos =
     ebind (isAtEnd ts pos) (\<lambda>e.
       if \<not> e then ebind (property (peek ts pos) ''type'') (\<lambda>t. Inr (tok_type t = ty))
       else Inr False)"

definition advance :: "Token list \<Rightarrow> nat \<Rightarrow> error + (Token option \<times> nat)" where
  "advance ts pos =
     ebind (isAtEnd ts pos) (\<lambda>e.
       let pos' = (if \<not> e then pos + 1 else pos)
       in Inr (previous ts pos', pos'))"

fun match :: "TokenType list \<Rightarrow> Token list \<Rightarrow> nat \<Rightarrow> error + (bool \<times> nat)" where
  "match [] ts pos = Inr (False, pos)"
| "match (ty # tys) ts pos =
     ebind (check ty ts pos) (\<lambda>c.
       if c then ebind (advance ts pos) (\<lambda>(_, pos'). Inr (True, pos'))
       else match tys ts pos)"

text \<open>A line number printed by a template literal: decimal, no sign (lines are naturals).\<close>

definition digit_char :: "nat \<Rightarrow> char" where
  "digit_char d = char_of (48 + d)"

fun string_of_nat :: "nat \<Rightarrow> string" where
  "string_of_nat n = (if n < 10 then [digit_char n] else string_of_nat (n div 10) @ [digit_char (n mod 10)])"

declare string_of_nat.simps [simp del]

text \<open>The template literals of the two \<open>throw\<close> statements.\<close>

definition at_line :: "string \<Rightarrow> nat \<Rightarrow> string" where
  "at_line msg line = msg @ '' at line '' @ string_of_nat line"

definition unexpected_token :: "TokenType \<Rightarrow> string" where
  "unexpected_token ty = ''Unexpected token: '' @ type_name ty"

definition consume :: "TokenType \<Rightarrow> string \<Rightarrow> Token list \<Rightarrow> nat \<Rightarrow> error + (Token option \<times> nat)" where
  "consume ty msg ts pos =
     ebind (check ty ts pos) (\<lambda>c.
       if c then advance ts pos
       else ebind (property (peek ts pos) ''line'') (\<lambda>t.
         Inl (Error (at_line msg (tok_line t)))))"

text \<open>\<open>consume(...).value\<close>: the text of the token that was consumed.\<close>

definition consume_value :: "TokenType \<Rightarrow> string \<Rightarrow> Token list \<Rightarrow> nat \<Rightarrow> error + (string \<times> nat)" where
  "consume_value ty msg ts pos =
     ebind (consume ty msg ts pos) (\<lambda>(t, pos').
       ebind (property t ''value'') (\<lambda>tok. Inr (tok_value tok, pos')))"

text \<open>\<open>this.previous().value\<close>\<close>

definition previous_value :: "Token list \<Rightarrow> nat \<Rightarrow> error + string" where
  "previous_value ts pos = ebind (property (previous ts pos) ''value'') (\<lambda>t. Inr (tok_value t))"

section \<open>Expressions\<close>

text \<open>
  Each method of the parser is one function; each \<open>while\<close> and \<open>do ... while\<close> loop is
  a function of its own, named after the method, that takes the loop's variables.
  The first argument bounds the depth of calls.
\<close>

function expression :: "nat \<Rightarrow> Token list \<Rightarrow> nat \<Rightarrow> (ASTNode \<times> nat) result"
  and or_expr :: "nat \<Rightarrow> Token list \<Rightarrow> nat \<Rightarrow> (ASTNode \<times> nat) result"
  and or_loop :: "nat \<Rightarrow> Token list \<Rightarrow> ASTNode \<Rightarrow> nat \<Rightarrow> (ASTNode \<times> nat) result"
  and and_expr :: "nat \<Rightarrow> Token list \<Rightarrow> nat \<Rightarrow> (ASTNode \<times> nat) result"
  and and_loop :: "nat \<Rightarrow> Token list \<Rightarrow> ASTNode \<Rightarrow> nat \<Rightarrow> (ASTNode \<times> nat) result"
  and equality :: "nat \<Rightarrow> Token list \<Rightarrow> nat \<Rightarrow> (ASTNode \<times> nat) result"
  and equality_loop :: "nat \<Rightarrow> Token list \<Rightarrow> ASTNode \<Rightarrow> nat \<Rightarrow> (ASTNode \<times> nat) result"
  and comparison :: "nat \<Rightarrow> Token list \<Rightarrow> nat \<Rightarrow> (ASTNode \<times> nat) result"
  and comparison_loop :: "nat \<Rightarrow> Token list \<Rightarrow> ASTNode \<Rightarrow> nat \<Rightarrow> (ASTNode \<times> nat) result"
  and term_expr :: "nat \<Rightarrow> Token list \<Rightarrow> nat \<Rightarrow> (ASTNode \<times> nat) result"
  and term_loop :: "nat \<Rightarrow> Token list \<Rightarrow> ASTNode \<Rightarrow> nat \<Rightarrow> (ASTNode \<times> nat) result"
  and factor :: "nat \<Rightarrow> Token list \<Rightarrow> nat \<Rightarrow> (ASTNode \<times> nat) result"
  and factor_loop :: "nat \<Rightarrow> Token list \<Rightarrow> ASTNode \<Rightarrow> nat \<Rightarrow> (ASTNode \<times> nat) result"
  and unary :: "nat \<Rightarrow> Token list \<Rightarrow> nat \<Rightarrow> (ASTNode \<times> nat) result"
  and call :: "nat \<Rightarrow> Token list \<Rightarrow> nat \<Rightarrow> (ASTNode \<times> nat) result"
  and call_loop :: "nat \<Rightarrow> Token list \<Rightarrow> ASTNode \<Rightarrow> nat \<Rightarrow> (ASTNode \<times> nat) result"
  and call_args :: "nat \<Rightarrow> Token list \<Rightarrow> ASTNode list \<Rightarrow> nat \<Rightarrow> (ASTNode list \<times> nat) result"
  and primary :: "nat \<Rightarrow> Token list \<Rightarrow> nat \<Rightarrow> (ASTNode \<times> nat) result"
  and primary_elements :: "nat \<Rightarrow> Token list \<Rightarrow> ASTNode list \<Rightarrow> nat \<Rightarrow> (ASTNode list \<times> nat) result"
where
  "expression 0 ts pos = None"
| "expression (Suc n) ts pos = or_expr n ts pos"

| "or_expr 0 ts pos = None"
| "or_expr (Suc n) ts pos =
     bnd (and_expr n ts pos) (\<lambda>(left, pos). or_loop n ts left pos)"
| "or_loop 0 ts left pos = None"
| "or_loop (Suc n) ts left pos =
     bnd (lift (match [OR] ts pos)) (\<lambda>(m, pos).
       if m then
         bnd (and_expr n ts pos) (\<lambda>(right, pos).
           or_loop n ts (BinaryExprNode ''or'' left right) pos)
       else ret (left, pos))"

| "and_expr 0 ts pos = None"
| "and_expr (Suc n) ts pos =
     bnd (equality n ts pos) (\<lambda>(left, pos). and_loop n ts left pos)"
| "and_loop 0 ts left pos = None"
| "and_loop (Suc n) ts left pos =
     bnd (lift (match [AND] ts pos)) (\<lambda>(m, pos).
       if m then
         bnd (equality n ts pos) (\<lambda>(right, pos).
           and_loop n ts (BinaryExprNode ''and'' left right) pos)
       else ret (left, pos))"

| "equality 0 ts pos = None"
| "equality (Suc n) ts pos =
     bnd (comparison n ts pos) (\<lambda>(left, pos). equality_loop n ts left pos)"
| "equality_loop 0 ts left pos = None"
| "equality_loop (Suc n) ts left pos =
     bnd (lift (match [EQ, NEQ] ts pos)) (\<lambda>(m, pos).
       if m then
         bnd (lift (previous_value ts pos)) (\<lambda>operator.
         bnd (comparison n ts pos) (\<lambda>(right, pos).
           equality_loop n ts (BinaryExprNode operator left right) pos))
       else ret (left, pos))"

| "comparison 0 ts pos = None"
| "comparison (Suc n) ts pos =
     bnd (term_expr n ts pos) (\<lambda>(left, pos). comparison_loop n ts left pos)"
| "comparison_loop 0 ts left pos = None"
| "comparison_loop (Suc n) ts left pos =
     bnd (lift (match [LT, GT, LTE, GTE] ts pos)) (\<lambda>(m, pos).
       if m then
         bnd (lift (previous_value ts pos)) (\<lambda>operator.
         bnd (term_expr n ts pos) (\<lambda>(right, pos).
           comparison_loop n ts (BinaryExprNode operator left right) pos))
       else ret (left, pos))"

| "term_expr 0 ts pos = None"
| "term_expr (Suc n) ts pos =
     bnd (factor n ts pos) (\<lambda>(left, pos). term_loop n ts left pos)"
| "term_loop 0 ts left pos = None"
| "term_loop (Suc n) ts left pos =
     bnd (lift (match [PLUS, MINUS] ts pos)) (\<lambda>(m, pos).
       if m then
         bnd (lift (previous_value ts pos)) (\<lambda>operator.
         bnd (factor n ts pos) (\<lambda>(right, pos).
           term_loop n ts (BinaryExprNode operator left right) pos))
       else ret (left, pos))"

| "factor 0 ts pos = None"
| "factor (Suc n) ts pos =
     bnd (unary n ts pos) (\<lambda>(left, pos). factor_loop n ts left pos)"
| "factor_loop 0 ts left pos = None"
| "factor_loop (Suc n) ts left pos =
     bnd (lift (match [STAR, SLASH, PERCENT] ts pos)) (\<lambda>(m, pos).
       if m then
         bnd (lift (previous_value ts pos)) (\<lambda>operator.
         bnd (unary n ts pos) (\<lambda>(right, pos).
           factor_loop n ts (BinaryExprNode operator left right) pos))
       else ret (left, pos))"

| "unary 0 ts pos = None"
| "unary (Suc n) ts pos =
     bnd (lift (match [NOT, MINUS] ts pos)) (\<lambda>(m, pos).
       if m then
         bnd (lift (previous_value ts pos)) (\<lambda>operator.
         bnd (unary n ts pos) (\<lambda>(operand, pos).
           ret (UnaryExprNode operator operand, pos)))
       else call n ts pos)"

| "call 0 ts pos = None"
| "call (Suc n) ts pos =
     bnd (primary n ts pos) (\<lambda>(expr, pos). call_loop n ts expr pos)"
| "call_loop 0 ts expr pos = None"
| "call_loop (Suc n) ts expr pos =
     bnd (lift (match [LPAREN] ts pos)) (\<lambda>(m, pos).
       if m then
         bnd (lift (check RPAREN ts pos)) (\<lambda>c.
         bnd (if \<not> c then call_args n ts [] pos else ret ([], pos)) (\<lambda>(args, pos).
         bnd (lift (consume RPAREN ''Expected ')' after arguments'' ts pos)) (\<lambda>(_, pos).
           call_loop n ts (CallNode expr args) pos)))
       else ret (expr, pos))"
| "call_args 0 ts args pos = None"
| "call_args (Suc n) ts args pos =
     bnd (expression n ts pos) (\<lambda>(arg, pos).
     bnd (lift (match [COMMA] ts pos)) (\<lambda>(m, pos).
       if m then call_args n ts (args @ [arg]) pos
       else ret (args @ [arg], pos)))"

| "primary 0 ts pos = None"
| "primary (Suc n) ts pos =
     bnd (lift (match [TRUE] ts pos)) (\<lambda>(m, pos).
     if m then ret (LiteralNode (BooleanValue True), pos) else
     bnd (lift (match [FALSE] ts pos)) (\<lambda>(m, pos).
     if m then ret (LiteralNode (BooleanValue False), pos) else
     bnd (lift (match [NUMBER] ts pos)) (\<lambda>(m, pos).
     if m then
       bnd (lift (previous_value ts pos)) (\<lambda>v. ret (LiteralNode (NumberValue v), pos))
     else
     bnd (lift (match [STRING] ts pos)) (\<lambda>(m, pos).
     if m then
       bnd (lift (previous_value ts pos)) (\<lambda>v. ret (LiteralNode (StringValue v), pos))
     else
     bnd (lift (match [IDENTIFIER] ts pos)) (\<lambda>(m, pos).
     if m then
       bnd (lift (previous_value ts pos)) (\<lambda>v. ret (IdentifierNode v, pos))
     else
     bnd (lift (match [TEMPLATE_START] ts pos)) (\<lambda>(m, pos).
     if m then
       bnd (lift (consume_value IDENTIFIER ''Expected variable name'' ts pos)) (\<lambda>(variable, pos).
       bnd (lift (consume TEMPLATE_END (''Expected '}}'' @ [CHR 0x27]) ts pos)) (\<lambda>(_, pos).
         ret (TemplateNode variable, pos)))
     else
     bnd (lift (match [LBRACKET] ts pos)) (\<lambda>(m, pos).
     if m then
       bnd (lift (check RBRACKET ts pos)) (\<lambda>c.
       bnd (if \<not> c then primary_elements n ts [] pos else ret ([], pos)) (\<lambda>(elements, pos).
       bnd (lift (consume RBRACKET (''Expected ']'' @ [CHR 0x27]) ts pos)) (\<lambda>(_, pos).
         ret (ArrayNode elements, pos))))
     else
     bnd (lift (match [LPAREN] ts pos)) (\<lambda>(m, pos).
     if m then
       bnd (expression n ts pos) (\<lambda>(expr, pos).
       bnd (lift (consume RPAREN (''Expected ')'' @ [CHR 0x27]) ts pos)) (\<lambda>(_, pos).
         ret (expr, pos)))
     else
     bnd (lift (property (peek ts pos) ''type'')) (\<lambda>t.
       Some (Inl (Error (unexpected_token (tok_type t)))))))))))))"
| "primary_elements 0 ts elements pos = None"
| "primary_elements (Suc n) ts elements pos =
     bnd (expression n ts pos) (\<lambda>(element, pos).
     bnd (lift (match [COMMA] ts pos)) (\<lambda>(m, pos).
       if m then primary_elements n ts (elements @ [element]) pos
       else ret (elements @ [element], pos)))"

  by pat_completeness auto

text \<open>Every call is made with one unit of fuel less.\<close>

termination
  by (relation "measure (case_sum (case_sum (case_sum (case_sum fst fst) (case_sum fst fst)) (case_sum (case_sum fst fst) (case_sum fst (case_sum fst fst)))) (case_sum (case_sum (case_sum fst fst) (case_sum fst (case_sum fst fst))) (case_sum (case_sum fst fst) (case_sum fst (case_sum fst fst)))))") auto

section \<open>Statements\<close>

definition letDeclaration :: "nat \<Rightarrow> Token list \<Rightarrow> nat \<Rightarrow> (ASTNode \<times> nat) result" where
  "letDeclaration n ts pos =
     bnd (lift (advance ts pos)) (\<lambda>(_, pos).
     bnd (lift (consume_value IDENTIFIER ''Expected variable name'' ts pos)) (\<lambda>(name, pos).
     bnd (lift (consume ASSIGN ''Expected '=' after variable name'' ts pos)) (\<lambda>(_, pos).
     bnd (expression n ts pos) (\<lambda>(v, pos).
       ret (LetNode name v, pos)))))"

text \<open>
  \<open>!this.check(TokenType.RBRACE) && !this.isAtEnd()\<close>: \<open>isAtEnd\<close> is called only when
  \<open>check\<close> returned false.
\<close>

definition not_rbrace_not_end :: "Token list \<Rightarrow> nat \<Rightarrow> error + bool" where
  "not_rbrace_not_end ts pos =
     ebind (check RBRACE ts pos) (\<lambda>c.
       if \<not> c then ebind (isAtEnd ts pos) (\<lambda>e. Inr (\<not> e)) else Inr False)"

definition returnStatement :: "nat \<Rightarrow> Token list \<Rightarrow> nat \<Rightarrow> (ASTNode \<times> nat) result" where
  "returnStatement n ts pos =
     bnd (lift (advance ts pos)) (\<lambda>(_, pos).
     bnd (lift (not_rbrace_not_end ts pos)) (\<lambda>c.
       if c then bnd (expression n ts pos) (\<lambda>(v, pos). ret (ReturnNode (Some v), pos))
       else ret (ReturnNode None, pos)))"

text \<open>The \<open>do ... while (this.match(TokenType.COMMA))\<close> loop of \<open>functionDeclaration\<close>.\<close>

fun functionDeclaration_params :: "nat \<Rightarrow> Token list \<Rightarrow> string list \<Rightarrow> nat \<Rightarrow> (string list \<times> nat) result" where
  "functionDeclaration_params 0 ts params pos = None"
| "functionDeclaration_params (Suc n) ts params pos =
     bnd (lift (consume_value IDENTIFIER ''Expected parameter name'' ts pos)) (\<lambda>(p, pos).
     bnd (lift (match [COMMA] ts pos)) (\<lambda>(m, pos).
       if m then functionDeclaration_params n ts (params @ [p]) pos
       else ret (params @ [p], pos)))"

text \<open>
  \<open>declaration\<close> (here \<open>declaration_stmt\<close>) is typed \<open>ASTNode | null\<close> but every path returns a node, and a node is
  truthy: the \<open>if (stmt)\<close> of \<open>parse\<close> and \<open>block\<close> always pushes.
\<close>

function declaration_stmt :: "nat \<Rightarrow> Token list \<Rightarrow> nat \<Rightarrow> (ASTNode \<times> nat) result"
  and functionDeclaration :: "nat \<Rightarrow> Token list \<Rightarrow> nat \<Rightarrow> (ASTNode \<times> nat) result"
  and statement :: "nat \<Rightarrow> Token list \<Rightarrow> nat \<Rightarrow> (ASTNode \<times> nat) result"
  and ifStatement :: "nat \<Rightarrow> Token list \<Rightarrow> nat \<Rightarrow> (ASTNode \<times> nat) result"
  and forStatement :: "nat \<Rightarrow> Token list \<Rightarrow> nat \<Rightarrow> (ASTNode \<times> nat) result"
  and whileStatement :: "nat \<Rightarrow> Token list \<Rightarrow> nat \<Rightarrow> (ASTNode \<times> nat) result"
  and block :: "nat \<Rightarrow> Token list \<Rightarrow> nat \<Rightarrow> (ASTNode \<times> nat) result"
  and block_loop :: "nat \<Rightarrow> Token list \<Rightarrow> ASTNode list \<Rightarrow> nat \<Rightarrow> (ASTNode list \<times> nat) result"
where
  "declaration_stmt 0 ts pos = None"
| "declaration_stmt (Suc n) ts pos =
     bnd (lift (check LET ts pos)) (\<lambda>c.
     if c then letDeclaration n ts pos else
     bnd (lift (check FN ts pos)) (\<lambda>c.
     if c then functionDeclaration n ts pos else
     statement n ts pos))"

| "functionDeclaration 0 ts pos = None"
| "functionDeclaration (Suc n) ts pos =
     bnd (lift (advance ts pos)) (\<lambda>(_, pos).
     bnd (lift (consume_value IDENTIFIER ''Expected function name'' ts pos)) (\<lambda>(name, pos).
     bnd (lift (consume LPAREN ''Expected '(' after function name'' ts pos)) (\<lambda>(_, pos).
     bnd (lift (check RPAREN ts pos)) (\<lambda>c.
     bnd (if \<not> c then functionDeclaration_params n ts [] pos else ret ([], pos)) (\<lambda>(params, pos).
     bnd (lift (consume RPAREN ''Expected ')' after parameters'' ts pos)) (\<lambda>(_, pos).
     bnd (block n ts pos) (\<lambda>(body, pos).
       ret (FunctionNode name params body, pos))))))))"

| "statement 0 ts pos = None"
| "statement (Suc n) ts pos =
     bnd (lift (check IF ts pos)) (\<lambda>c.
     if c then ifStatement n ts pos else
     bnd (lift (check FOR ts pos)) (\<lambda>c.
     if c then forStatement n ts pos else
     bnd (lift (check WHILE ts pos)) (\<lambda>c.
     if c then whileStatement n ts pos else
     bnd (lift (check RETURN ts pos)) (\<lambda>c.
     if c then returnStatement n ts pos else
     bnd (lift (check LBRACE ts pos)) (\<lambda>c.
     if c then block n ts pos else
     expression n ts pos)))))"

| "ifStatement 0 ts pos = None"
| "ifStatement (Suc n) ts pos =
     bnd (lift (advance ts pos)) (\<lambda>(_, pos).
     bnd (expression n ts pos) (\<lambda>(condition, pos).
     bnd (block n ts pos) (\<lambda>(thenBranch, pos).
     bnd (lift (match [ELSE] ts pos)) (\<lambda>(m, pos).
       if m then
         bnd (lift (check IF ts pos)) (\<lambda>c.
         bnd (if c then ifStatement n ts pos else block n ts pos) (\<lambda>(elseBranch, pos).
           ret (IfNode condition thenBranch (Some elseBranch), pos)))
       else ret (IfNode condition thenBranch None, pos)))))"

| "forStatement 0 ts pos = None"
| "forStatement (Suc n) ts pos =
     bnd (lift (advance ts pos)) (\<lambda>(_, pos).
     bnd (lift (consume_value IDENTIFIER ''Expected variable name'' ts pos)) (\<lambda>(variable, pos).
     bnd (lift (consume IDENTIFIER (''Expected 'in'' @ [CHR 0x27]) ts pos)) (\<lambda>(_, pos).
     bnd (expression n ts pos) (\<lambda>(iterable, pos).
     bnd (block n ts pos) (\<lambda>(body, pos).
       ret (ForNode variable iterable body, pos))))))"

| "whileStatement 0 ts pos = None"
| "whileStatement (Suc n) ts pos =
     bnd (lift (advance ts pos)) (\<lambda>(_, pos).
     bnd (expression n ts pos) (\<lambda>(condition, pos).
     bnd (block n ts pos) (\<lambda>(body, pos).
       ret (WhileNode condition body, pos))))"

| "block 0 ts pos = None"
| "block (Suc n) ts pos =
     bnd (lift (consume LBRACE (''Expected '{'' @ [CHR 0x27]) ts pos)) (\<lambda>(_, pos).
     bnd (block_loop n ts [] pos) (\<lambda>(statements, pos).
     bnd (lift (consume RBRACE (''Expected '}'' @ [CHR 0x27]) ts pos)) (\<lambda>(_, pos).
       ret (BlockNode statements, pos))))"
| "block_loop 0 ts statements pos = None"
| "block_loop (Suc n) ts statements pos =
     bnd (lift (not_rbrace_not_end ts pos)) (\<lambda>c.
       if c then
         bnd (declaration_stmt n ts pos) (\<lambda>(stmt, pos).
           block_loop n ts (statements @ [stmt]) pos)
       else ret (statements, pos))"
  by pat_completeness auto

termination
  by (relation "measure (case_sum (case_sum (case_sum fst fst) (case_sum fst fst)) (case_sum (case_sum fst fst) (case_sum fst fst)))") auto

section \<open>Programs\<close>

fun parse_loop :: "nat \<Rightarrow> Token list \<Rightarrow> ASTNode list \<Rightarrow> nat \<Rightarrow> (ASTNode list \<times> nat) result" where
  "parse_loop 0 ts body pos = None"
| "parse_loop (Suc n) ts body pos =
     bnd (lift (isAtEnd ts pos)) (\<lambda>e.
       if \<not> e then
         bnd (declaration_stmt n ts pos) (\<lambda>(stmt, pos).
           parse_loop n ts (body @ [stmt]) pos)
       else ret (body, pos))"

text \<open>\<open>new Parser(tokens).parse()\<close>: \<open>pos\<close> starts at 0.\<close>

definition parse :: "nat \<Rightarrow> Token list \<Rightarrow> ASTNode result" where
  "parse n ts = bnd (parse_loop n ts [] 0) (\<lambda>(body, _). ret (ProgramNode body))"

section \<open>Lexer (lexer.ts)\<close>

text \<open>
  The lexer's fields. A character of the source is a \<open>char\<close>; \<open>peek\<close> and \<open>peekNext\<close>
  return \<open>"\0"\<close> past the end. \<open>advance\<close> reads \<open>source[pos]\<close>; every call of it
  stands behind a test that \<open>pos\<close> is in range (\<open>isAtEnd\<close>, or a \<open>peek\<close> that returned a
  character that is not \<open>"\0"\<close>).
\<close>

record Lexer =
  lx_source :: string
  lx_pos :: nat
  lx_line :: nat
  lx_column :: nat

definition lx_isAtEnd :: "Lexer \<Rightarrow> bool" where
  "lx_isAtEnd l = (length (lx_source l) \<le> lx_pos l)"

definition lx_peek :: "Lexer \<Rightarrow> char" where
  "lx_peek l = (if lx_pos l < length (lx_source l) then lx_source l ! lx_pos l else CHR 0x00)"

definition lx_peekNext :: "Lexer \<Rightarrow> char" where
  "lx_peekNext l =
     (if lx_pos l + 1 < length (lx_source l) then lx_source l ! (lx_pos l + 1) else CHR 0x00)"

definition lx_advance :: "Lexer \<Rightarrow> char \<times> Lexer" where
  "lx_advance l =
     (lx_source l ! lx_pos l, l\<lparr>lx_pos := lx_pos l + 1, lx_column := lx_column l + 1\<rparr>)"

definition isDigit :: "char \<Rightarrow> bool" where
  "isDigit c = (CHR ''0'' \<le> c \<and> c \<le> CHR ''9'')"

definition isAlpha :: "char \<Rightarrow> bool" where
  "isAlpha c = ((CHR ''a'' \<le> c \<and> c \<le> CHR ''z'') \<or> (CHR ''A'' \<le> c \<and> c \<le> CHR ''Z'') \<or> c = CHR ''_'')"

definition isAlphaNumeric :: "char \<Rightarrow> bool" where
  "isAlphaNumeric c = (isAlpha c \<or> isDigit c)"

definition makeToken :: "Lexer \<Rightarrow> TokenType \<Rightarrow> string \<Rightarrow> Token" where
  "makeToken l ty v =
     \<lparr>tok_type = ty, tok_value = v, tok_line = lx_line l,
      tok_column = int (lx_column l) - int (length v)\<rparr>"

definition lexer_keywords :: "(string \<times> TokenType) list" where
  "lexer_keywords =
     [(''let'', LET), (''if'', IF), (''else'', ELSE), (''for'', FOR), (''while'', WHILE),
      (''fn'', FN), (''return'', RETURN), (''true'', TRUE), (''false'', FALSE),
      (''and'', AND), (''or'', OR), (''not'', NOT)]"

function skipWhitespace :: "Lexer \<Rightarrow> Lexer" where
  "skipWhitespace l =
     (if \<not> lx_isAtEnd l then
        (let c = lx_peek l in
         if c = CHR '' '' \<or> c = CHR 0x09 \<or> c = CHR 0x0D then skipWhitespace (snd (lx_advance l))
         else l)
      else l)"
  by pat_completeness auto

termination
  by (relation "measure (\<lambda>l. length (lx_source l) - lx_pos l)")
     (auto simp: lx_isAtEnd_def lx_advance_def)

declare skipWhitespace.simps [simp del]

function skipLineComment :: "Lexer \<Rightarrow> Lexer" where
  "skipLineComment l =
     (if \<not> lx_isAtEnd l \<and> lx_peek l \<noteq> CHR 0x0A then skipLineComment (snd (lx_advance l))
      else l)"
  by pat_completeness auto

termination
  by (relation "measure (\<lambda>l. length (lx_source l) - lx_pos l)")
     (auto simp: lx_isAtEnd_def lx_advance_def)

declare skipLineComment.simps [simp del]

text \<open>The loop of \<open>string(quote)\<close>, with its variable \<open>value\<close>.\<close>

definition string_step :: "char \<Rightarrow> Lexer \<Rightarrow> Lexer" where
  "string_step quote l =
     (let l1 = (if lx_peek l = CHR 0x0A then l\<lparr>lx_line := lx_line l + 1, lx_column := 1\<rparr> else l)
      in if lx_peek l1 = CHR 0x5C \<and> lx_peekNext l1 = quote then snd (lx_advance l1) else l1)"

function string_loop :: "char \<Rightarrow> string \<Rightarrow> Lexer \<Rightarrow> string \<times> Lexer" where
  "string_loop quote v l =
     (if \<not> lx_isAtEnd l \<and> lx_peek l \<noteq> quote then
        (let l2 = string_step quote l in
         string_loop quote (v @ [fst (lx_advance l2)]) (snd (lx_advance l2)))
      else (v, l))"
  by pat_completeness auto

termination
  by (relation "measure (\<lambda>(quote, v, l). length (lx_source l) - lx_pos l)")
     (auto simp: lx_isAtEnd_def lx_advance_def string_step_def Let_def)

declare string_loop.simps [simp del]

definition string_token :: "char \<Rightarrow> Lexer \<Rightarrow> Token \<times> Lexer" where
  "string_token quote l =
     (let (v, l1) = string_loop quote [] l in
      if lx_isAtEnd l1 then (makeToken l1 ERROR ''Unterminated string'', l1)
      else (let l2 = snd (lx_advance l1) in (makeToken l2 STRING v, l2)))"

function number_loop :: "string \<Rightarrow> Lexer \<Rightarrow> string \<times> Lexer" where
  "number_loop v l =
     (if isDigit (lx_peek l) then number_loop (v @ [fst (lx_advance l)]) (snd (lx_advance l))
      else (v, l))"
  by pat_completeness auto

termination
  by (relation "measure (\<lambda>(v, l). length (lx_source l) - lx_pos l)")
     (auto simp: lx_peek_def lx_advance_def isDigit_def split: if_splits)

declare number_loop.simps [simp del]

definition number_token :: "char \<Rightarrow> Lexer \<Rightarrow> Token \<times> Lexer" where
  "number_token first l =
     (let (v, l1) = number_loop [first] l;
          (v2, l2) = (if lx_peek l1 = CHR ''.'' \<and> isDigit (lx_peekNext l1)
                      then number_loop (v @ [fst (lx_advance l1)]) (snd (lx_advance l1))
                      else (v, l1))
      in (makeToken l2 NUMBER v2, l2))"

function identifier_loop :: "string \<Rightarrow> Lexer \<Rightarrow> string \<times> Lexer" where
  "identifier_loop v l =
     (if isAlphaNumeric (lx_peek l) then identifier_loop (v @ [fst (lx_advance l)]) (snd (lx_advance l))
      else (v, l))"
  by pat_completeness auto

termination
  by (relation "measure (\<lambda>(v, l). length (lx_source l) - lx_pos l)")
     (auto simp: lx_peek_def lx_advance_def isAlphaNumeric_def isAlpha_def isDigit_def split: if_splits)

declare identifier_loop.simps [simp del]

definition identifier_token :: "char \<Rightarrow> Lexer \<Rightarrow> Token \<times> Lexer" where
  "identifier_token first l =
     (let (v, l1) = identifier_loop [first] l;
          ty = (case map_of lexer_keywords v of Some k \<Rightarrow> k | None \<Rightarrow> IDENTIFIER)
      in (makeToken l1 ty v, l1))"

text \<open>
  The lexer only moves forward over an unchanged source: what the termination of
  \<open>nextToken\<close> and of the loop of \<open>tokenize\<close> rest on.
\<close>

lemma lx_advance_source [simp]: "lx_source (snd (lx_advance l)) = lx_source l"
  by (simp add: lx_advance_def)

lemma lx_advance_pos [simp]: "lx_pos (snd (lx_advance l)) = lx_pos l + 1"
  by (simp add: lx_advance_def)

lemma skipWhitespace_frame:
  "lx_source (skipWhitespace l) = lx_source l \<and> lx_pos l \<le> lx_pos (skipWhitespace l)"
proof (induction l rule: skipWhitespace.induct)
  case (1 l)
  show ?case
  proof (cases "\<not> lx_isAtEnd l \<and> (lx_peek l = CHR '' '' \<or> lx_peek l = CHR 0x09 \<or> lx_peek l = CHR 0x0D)")
    case True
    with "1.IH" [of "lx_peek l"] have "lx_source (skipWhitespace (snd (lx_advance l))) = lx_source l
        \<and> lx_pos l + 1 \<le> lx_pos (skipWhitespace (snd (lx_advance l)))"
      by simp
    with True show ?thesis
      by (subst (1 2) skipWhitespace.simps) (simp add: Let_def)
  next
    case False
    then show ?thesis
      by (subst (1 2) skipWhitespace.simps) (auto simp: Let_def)
  qed
qed

lemma skipLineComment_frame:
  "lx_source (skipLineComment l) = lx_source l \<and> lx_pos l \<le> lx_pos (skipLineComment l)"
proof (induction l rule: skipLineComment.induct)
  case (1 l)
  show ?case
  proof (cases "\<not> lx_isAtEnd l \<and> lx_peek l \<noteq> CHR 0x0A")
    case True
    with "1.IH" have "lx_source (skipLineComment (snd (lx_advance l))) = lx_source l
        \<and> lx_pos l + 1 \<le> lx_pos (skipLineComment (snd (lx_advance l)))"
      by simp
    with True show ?thesis
      by (subst (1 2) skipLineComment.simps) simp
  next
    case False
    then show ?thesis
      by (subst (1 2) skipLineComment.simps) auto
  qed
qed

text \<open>
  \<open>nextToken\<close>: the \<open>switch\<close> is the chain of tests on \<open>char\<close>, in the order of its cases.
\<close>

function nextToken :: "Lexer \<Rightarrow> Token \<times> Lexer" where
  "nextToken l0 =
     (let l = skipWhitespace l0 in
      if lx_isAtEnd l then (makeToken l EOF [], l) else
      (let char = fst (lx_advance l); l = snd (lx_advance l) in
       if char = CHR ''{'' \<and> lx_peek l = CHR ''{'' then
         (let l = snd (lx_advance l) in (makeToken l TEMPLATE_START ''{{'', l))
       else if char = CHR ''}'' \<and> lx_peek l = CHR ''}'' then
         (let l = snd (lx_advance l) in (makeToken l TEMPLATE_END ''}}'', l))
       else if char = CHR ''('' then (makeToken l LPAREN [char], l)
       else if char = CHR '')'' then (makeToken l RPAREN [char], l)
       else if char = CHR ''{'' then (makeToken l LBRACE [char], l)
       else if char = CHR ''}'' then (makeToken l RBRACE [char], l)
       else if char = CHR ''['' then (makeToken l LBRACKET [char], l)
       else if char = CHR '']'' then (makeToken l RBRACKET [char], l)
       else if char = CHR '','' then (makeToken l COMMA [char], l)
       else if char = CHR ''.'' then (makeToken l DOT [char], l)
       else if char = CHR '':'' then (makeToken l COLON [char], l)
       else if char = CHR '';'' then (makeToken l SEMICOLON [char], l)
       else if char = CHR ''+'' then (makeToken l PLUS [char], l)
       else if char = CHR ''-'' then
         (if lx_peek l = CHR ''>'' then
            (let l = snd (lx_advance l) in (makeToken l ARROW ''->'', l))
          else (makeToken l MINUS [char], l))
       else if char = CHR ''*'' then (makeToken l STAR [char], l)
       else if char = CHR ''/'' then
         (if lx_peek l = CHR ''/'' then nextToken (skipLineComment l)
          else (makeToken l SLASH [char], l))
       else if char = CHR ''%'' then (makeToken l PERCENT [char], l)
       else if char = CHR ''='' then
         (if lx_peek l = CHR ''='' then
            (let l = snd (lx_advance l) in (makeToken l EQ ''=='', l))
          else (makeToken l ASSIGN [char], l))
       else if char = CHR ''!'' then
         (if lx_peek l = CHR ''='' then
            (let l = snd (lx_advance l) in (makeToken l NEQ ''!='', l))
          else (makeToken l NOT [char], l))
       else if char = CHR ''<'' then
         (if lx_peek l = CHR ''='' then
            (let l = snd (lx_advance l) in (makeToken l LTE ''<='', l))
          else (makeToken l LT [char], l))
       else if char = CHR ''>'' then
         (if lx_peek l = CHR ''='' then
            (let l = snd (lx_advance l) in (makeToken l GTE ''>='', l))
          else (makeToken l GT [char], l))
       else if char = CHR 0x0A then
         (let l = l\<lparr>lx_line := lx_line l + 1, lx_column := 1\<rparr> in (makeToken l NEWLINE [char], l))
       else if char = CHR 0x22 \<or> char = CHR 0x27 then string_token char l
       else if isDigit char then number_token char l
       else if isAlpha char then identifier_token char l
       else (makeToken l ERROR [char], l)))"
  by pat_completeness auto

termination
  apply (relation "measure (\<lambda>l. length (lx_source l) - lx_pos l)")
   apply simp
  subgoal premises prems for l0 x xa xb
  proof -
    let ?w = "skipWhitespace l0"
    let ?a = "snd (lx_advance ?w)"
    have "lx_pos ?w < length (lx_source ?w)"
      using prems(1,2) by (simp add: lx_isAtEnd_def)
    moreover have "lx_source ?w = lx_source l0" "lx_pos l0 \<le> lx_pos ?w"
      using skipWhitespace_frame [of l0] by simp_all
    moreover have "lx_source (skipLineComment ?a) = lx_source l0" "lx_pos ?w + 1 \<le> lx_pos (skipLineComment ?a)"
      using skipLineComment_frame [of ?a] skipWhitespace_frame [of l0] by simp_all
    moreover have "xb = ?a"
      using prems by simp
    ultimately show ?thesis
      by simp
  qed
  done

declare nextToken.simps [simp del]


lemma string_loop_frame:
  "lx_source (snd (string_loop q v l)) = lx_source l \<and> lx_pos l \<le> lx_pos (snd (string_loop q v l))"
proof (induction q v l rule: string_loop.induct)
  case (1 quote v l)
  show ?case
  proof (cases "\<not> lx_isAtEnd l \<and> lx_peek l \<noteq> quote")
    case True
    let ?l2 = "string_step quote l"
    have step: "lx_source ?l2 = lx_source l \<and> lx_pos l \<le> lx_pos ?l2"
      by (simp add: string_step_def Let_def)
    from True "1.IH" [OF _ refl]
    have "lx_source (snd (string_loop quote (v @ [fst (lx_advance ?l2)]) (snd (lx_advance ?l2)))) = lx_source ?l2
      \<and> lx_pos ?l2 + 1 \<le> lx_pos (snd (string_loop quote (v @ [fst (lx_advance ?l2)]) (snd (lx_advance ?l2))))"
      by simp
    with True step show ?thesis
      by (subst (1 2) string_loop.simps) (simp add: Let_def)
  next
    case False
    then show ?thesis
      by (subst (1 2) string_loop.simps) auto
  qed
qed

lemma string_token_frame:
  "lx_source (snd (string_token q l)) = lx_source l \<and> lx_pos l \<le> lx_pos (snd (string_token q l))"
  using string_loop_frame [of q "[]" l]
  by (auto simp: string_token_def Let_def split: prod.splits)

lemma number_loop_frame:
  "lx_source (snd (number_loop v l)) = lx_source l \<and> lx_pos l \<le> lx_pos (snd (number_loop v l))"
proof (induction v l rule: number_loop.induct)
  case (1 v l)
  show ?case
  proof (cases "isDigit (lx_peek l)")
    case True
    with "1.IH" show ?thesis
      by (subst (1 2) number_loop.simps) simp
  next
    case False
    then show ?thesis
      by (subst (1 2) number_loop.simps) simp
  qed
qed

lemma number_token_frame:
  "lx_source (snd (number_token c l)) = lx_source l \<and> lx_pos l \<le> lx_pos (snd (number_token c l))"
proof -
  obtain v l1 where a: "number_loop [c] l = (v, l1)"
    by (cases "number_loop [c] l")
  have f1: "lx_source l1 = lx_source l \<and> lx_pos l \<le> lx_pos l1"
    using number_loop_frame [of "[c]" l] by (simp add: a)
  show ?thesis
  proof (cases "lx_peek l1 = CHR ''.'' \<and> isDigit (lx_peekNext l1)")
    case True
    obtain v2 l2 where b: "number_loop (v @ [fst (lx_advance l1)]) (snd (lx_advance l1)) = (v2, l2)"
      by (cases "number_loop (v @ [fst (lx_advance l1)]) (snd (lx_advance l1))")
    have "lx_source l2 = lx_source l1 \<and> lx_pos l1 \<le> lx_pos l2"
      using number_loop_frame [of "v @ [fst (lx_advance l1)]" "snd (lx_advance l1)"] by (simp add: b)
    with True f1 show ?thesis
      by (simp add: number_token_def a b)
  next
    case False
    with f1 show ?thesis
      by (auto simp: number_token_def a)
  qed
qed

lemma identifier_loop_frame:
  "lx_source (snd (identifier_loop v l)) = lx_source l \<and> lx_pos l \<le> lx_pos (snd (identifier_loop v l))"
proof (induction v l rule: identifier_loop.induct)
  case (1 v l)
  show ?case
  proof (cases "isAlphaNumeric (lx_peek l)")
    case True
    with "1.IH" show ?thesis
      by (subst (1 2) identifier_loop.simps) simp
  next
    case False
    then show ?thesis
      by (subst (1 2) identifier_loop.simps) simp
  qed
qed

lemma identifier_token_frame:
  "lx_source (snd (identifier_token c l)) = lx_source l \<and> lx_pos l \<le> lx_pos (snd (identifier_token c l))"
  using identifier_loop_frame [of "[c]" l]
  by (auto simp: identifier_token_def Let_def split: prod.splits)

lemma nextToken_frame:
  "lx_source (snd (nextToken l)) = lx_source l \<and> lx_pos l \<le> lx_pos (snd (nextToken l)) \<and>
   (\<not> lx_isAtEnd l \<longrightarrow> lx_pos l < lx_pos (snd (nextToken l)))"
proof (induction l rule: nextToken.induct)
  case (1 l0)
  let ?w = "skipWhitespace l0"
  let ?c = "fst (lx_advance ?w)"
  let ?a = "snd (lx_advance ?w)"
  have w: "lx_source ?w = lx_source l0" "lx_pos l0 \<le> lx_pos ?w"
    using skipWhitespace_frame [of l0] by simp_all
  show ?case
  proof (cases "lx_isAtEnd ?w")
    case True
    then have "nextToken l0 = (makeToken ?w EOF [], ?w)"
      by (subst nextToken.simps) (simp add: Let_def)
    with True w show ?thesis
      by (auto simp: lx_isAtEnd_def)
  next
    case notend: False
    show ?thesis
    proof (cases "?c = CHR ''/'' \<and> lx_peek ?a = CHR ''/''")
      case True
      then have eq: "nextToken l0 = nextToken (skipLineComment ?a)"
        using notend by (subst nextToken.simps) (simp add: Let_def)
      have "lx_source (snd (nextToken (skipLineComment ?a))) = lx_source (skipLineComment ?a)
          \<and> lx_pos (skipLineComment ?a) \<le> lx_pos (snd (nextToken (skipLineComment ?a)))"
        using "1.IH" [OF refl notend refl refl] True by simp
      with w skipLineComment_frame [of ?a] show ?thesis
        by (simp add: eq)
    next
      case False
      have s: "lx_source (snd (string_token ?c ?a)) = lx_source l0" "lx_pos l0 < lx_pos (snd (string_token ?c ?a))"
        using string_token_frame [of ?c ?a] w by simp_all
      have n: "lx_source (snd (number_token ?c ?a)) = lx_source l0" "lx_pos l0 < lx_pos (snd (number_token ?c ?a))"
        using number_token_frame [of ?c ?a] w by simp_all
      have i: "lx_source (snd (identifier_token ?c ?a)) = lx_source l0" "lx_pos l0 < lx_pos (snd (identifier_token ?c ?a))"
        using identifier_token_frame [of ?c ?a] w by simp_all
      have a: "lx_source ?a = lx_source l0" "lx_pos l0 < lx_pos ?a"
        using w by simp_all
      show ?thesis
        using notend False s n i a
        by (subst (1 2 3) nextToken.simps) (auto simp: Let_def)
    qed
  qed
qed

function tokenize_loop :: "Token list \<Rightarrow> Lexer \<Rightarrow> Token list \<times> Lexer" where
  "tokenize_loop tokens l =
     (if \<not> lx_isAtEnd l then
        (let (token, l') = nextToken l in
         tokenize_loop (if tok_type token \<noteq> NEWLINE then tokens @ [token] else tokens) l')
      else (tokens, l))"
  by pat_completeness auto

termination
  apply (relation "measure (\<lambda>(tokens, l). length (lx_source l) - lx_pos l)")
   apply simp
  subgoal for tokens l x token l'
    using nextToken_frame [of l] by (cases "nextToken l") (auto simp: lx_isAtEnd_def)
  done

declare tokenize_loop.simps [simp del]

definition tokenize :: "string \<Rightarrow> Token list" where
  "tokenize src =
     (let (tokens, l) = tokenize_loop [] \<lparr>lx_source = src, lx_pos = 0, lx_line = 1, lx_column = 1\<rparr>
      in tokens @ [makeToken l EOF []])"


section \<open>Language server (server.ts)\<close>

subsection \<open>Types\<close>

text \<open>
  \<open>line\<close> and \<open>character\<close> are numbers: a diagnostic computes them by subtraction, and
  they can be negative.
\<close>

record Position =
  pos_line :: int
  pos_character :: int

record Range =
  range_start :: Position
  range_end :: Position

record Diagnostic =
  diag_range :: Range
  diag_message :: string
  diag_severity :: nat
  diag_source :: string

record CompletionItem =
  ci_label :: string
  ci_kind :: nat
  ci_detail :: "string option"
  ci_documentation :: "string option"

record TextDocumentItem =
  doc_uri :: string
  doc_languageId :: string
  doc_version :: int
  doc_text :: string

subsection \<open>Document store\<close>

text \<open>
  \<open>DocumentStore\<close> wraps a \<open>Map<string, TextDocumentItem>\<close>. \<open>update\<close> assigns to the
  fields of the stored object. The only caller of \<open>open\<close> passes the object that
  \<open>JSON.parse\<close> made for one message, so no object is stored under two keys, and the
  store is a map from URIs to values.
\<close>

type_synonym DocumentStore = "string \<rightharpoonup> TextDocumentItem"

definition DocumentStore_open :: "TextDocumentItem \<Rightarrow> DocumentStore \<Rightarrow> DocumentStore" where
  "DocumentStore_open doc documents = documents(doc_uri doc \<mapsto> doc)"

definition DocumentStore_update :: "string \<Rightarrow> string \<Rightarrow> int \<Rightarrow> DocumentStore \<Rightarrow> DocumentStore" where
  "DocumentStore_update uri text version documents =
     (case documents uri of
        Some doc \<Rightarrow> documents(uri \<mapsto> doc\<lparr>doc_text := text, doc_version := version\<rparr>)
      | None \<Rightarrow> documents)"

definition DocumentStore_close :: "string \<Rightarrow> DocumentStore \<Rightarrow> DocumentStore" where
  "DocumentStore_close uri documents = documents(uri := None)"

definition DocumentStore_get :: "string \<Rightarrow> DocumentStore \<Rightarrow> TextDocumentItem option" where
  "DocumentStore_get uri documents = documents uri"

subsection \<open>analyze\<close>

text \<open>The diagnostics of the loop over the tokens, one for each \<open>ERROR\<close> token.\<close>

definition lexer_diagnostic :: "Token \<Rightarrow> Diagnostic" where
  "lexer_diagnostic token =
     \<lparr>diag_range =
        \<lparr>range_start = \<lparr>pos_line = int (tok_line token) - 1, pos_character = tok_column token - 1\<rparr>,
         range_end = \<lparr>pos_line = int (tok_line token) - 1,
                      pos_character = tok_column token + int (length (tok_value token)) - 1\<rparr>\<rparr>,
      diag_message = ''Unexpected character: '' @ tok_value token,
      diag_severity = 1,
      diag_source = ''noteg''\<rparr>"

definition lexer_diagnostics :: "Token list \<Rightarrow> Diagnostic list" where
  "lexer_diagnostics tokens = map lexer_diagnostic (filter (\<lambda>token. tok_type token = ERROR) tokens)"

text \<open>
  A regular expression that is a literal followed by \<open>(\d+)\<close>, as \<open>String.match\<close> runs
  it: the leftmost place where the literal is followed by a digit; the group is the
  longest run of digits there. \<open>None\<close> is \<open>null\<close>.
\<close>

fun match_literal_digits :: "'a list \<Rightarrow> ('a \<Rightarrow> bool) \<Rightarrow> 'a list \<Rightarrow> 'a list option" where
  "match_literal_digits lit digit [] = None"
| "match_literal_digits lit digit (c # cs) =
     (if take (length lit) (c # cs) = lit \<and> takeWhile digit (drop (length lit) (c # cs)) \<noteq> []
      then Some (takeWhile digit (drop (length lit) (c # cs)))
      else match_literal_digits lit digit cs)"

text \<open>\<open>error.message.match(/at line (\d+)/)\<close>\<close>

definition match_at_line :: "string \<Rightarrow> string option" where
  "match_at_line m = match_literal_digits ''at line '' isDigit m"

text \<open>
  \<open>parseInt\<close> of a run of decimal digits, given as UTF-16 code units. The value is exact
  below \<open>2^53\<close>; above it the double is still larger than the length of any string.
\<close>

definition parseInt_units :: "nat list \<Rightarrow> nat" where
  "parseInt_units ds = foldl (\<lambda>n u. 10 * n + (u - 48)) 0 ds"

definition parseInt :: "string \<Rightarrow> nat" where
  "parseInt ds = parseInt_units (map of_char ds)"

definition error_line :: "error \<Rightarrow> int" where
  "error_line e = (case match_at_line (message e) of Some ds \<Rightarrow> int (parseInt ds) - 1 | None \<Rightarrow> 0)"

definition parse_diagnostic :: "error \<Rightarrow> Diagnostic" where
  "parse_diagnostic e =
     \<lparr>diag_range =
        \<lparr>range_start = \<lparr>pos_line = error_line e, pos_character = 0\<rparr>,
         range_end = \<lparr>pos_line = error_line e, pos_character = 100\<rparr>\<rparr>,
      diag_message = message e,
      diag_severity = 1,
      diag_source = ''noteg''\<rparr>"

text \<open>\<open>try { ... } catch (error) { ... }\<close>: the handler runs on what the body threw.\<close>

definition try_catch :: "'a result \<Rightarrow> (error \<Rightarrow> 'a result) \<Rightarrow> 'a result" where
  "try_catch body handler = (case body of Some (Inl e) \<Rightarrow> handler e | r \<Rightarrow> r)"

text \<open>
  \<open>analyze\<close>. The lexer does not throw. The diagnostics pushed before \<open>parse\<close> throws
  stay in the array; both \<open>Error\<close> and \<open>TypeError\<close> are instances of \<open>Error\<close>.
  The first argument is the parser's bound on the depth of calls.
\<close>

definition analyze :: "nat \<Rightarrow> DocumentStore \<Rightarrow> string \<Rightarrow> Diagnostic list result" where
  "analyze n documents uri =
     (case DocumentStore_get uri documents of
        None \<Rightarrow> ret []
      | Some doc \<Rightarrow>
          (let tokens = tokenize (doc_text doc);
               diagnostics = lexer_diagnostics tokens
           in try_catch
                (bnd (parse n tokens) (\<lambda>_. ret diagnostics))
                (\<lambda>error. ret (diagnostics @ [parse_diagnostic error]))))"

subsection \<open>getCompletions\<close>

definition completion_keywords :: "(string \<times> string) list" where
  "completion_keywords =
     [(''let'', ''Variable declaration''),
      (''fn'', ''Function definition''),
      (''if'', ''Conditional statement''),
      (''else'', ''Else branch''),
      (''for'', ''For loop''),
      (''while'', ''While loop''),
      (''return'', ''Return statement''),
      (''true'', ''Boolean true''),
      (''false'', ''Boolean false''),
      (''and'', ''Logical AND''),
      (''or'', ''Logical OR''),
      (''not'', ''Logical NOT'')]"

definition completion_builtins :: "(string \<times> string \<times> string) list" where
  "completion_builtins =
     [(''print'', ''Print to console'', ''print(value) - Outputs value to console''),
      (''len'', ''Get length'', ''len(array|string) - Returns the length'')]"

text \<open>\<open>getCompletions\<close> reads neither its arguments nor the server's documents.\<close>

definition getCompletions :: "DocumentStore \<Rightarrow> string \<Rightarrow> Position \<Rightarrow> CompletionItem list" where
  "getCompletions documents uri position =
     map (\<lambda>(label, detail).
            \<lparr>ci_label = label, ci_kind = 14, ci_detail = Some detail, ci_documentation = None\<rparr>)
         completion_keywords
     @ map (\<lambda>(label, detail, doc).
            \<lparr>ci_label = label, ci_kind = 3, ci_detail = Some detail, ci_documentation = Some doc\<rparr>)
         completion_builtins"

subsection \<open>getHover\<close>

text \<open>\<open>text.split("\n")\<close>: never empty.\<close>

fun split_lines :: "string \<Rightarrow> string list" where
  "split_lines [] = [[]]"
| "split_lines (c # cs) =
     (if c = CHR 0x0A then [] # split_lines cs
      else (case split_lines cs of [] \<Rightarrow> [[c]] | l # ls \<Rightarrow> (c # l) # ls))"

text \<open>
  \<open>xs[i]\<close> for a number \<open>i\<close>: \<open>undefined\<close> (\<open>None\<close>) out of range.
  \<open>/\w/.test(line[i])\<close>: \<open>test\<close> turns \<open>undefined\<close> into the string \<open>"undefined"\<close>, which
  has a word character.
\<close>

definition js_index :: "'a list \<Rightarrow> int \<Rightarrow> 'a option" where
  "js_index xs i = (if 0 \<le> i \<and> i < int (length xs) then Some (xs ! nat i) else None)"

definition test_word :: "char option \<Rightarrow> bool" where
  "test_word c = (case c of None \<Rightarrow> True | Some ch \<Rightarrow> isAlphaNumeric ch)"

function word_start :: "string \<Rightarrow> int \<Rightarrow> int" where
  "word_start line start =
     (if start > 0 \<and> test_word (js_index line (start - 1)) then word_start line (start - 1)
      else start)"
  by pat_completeness auto

termination
  by (relation "measure (\<lambda>(line, start). nat start)") auto

declare word_start.simps [simp del]

function word_end :: "string \<Rightarrow> int \<Rightarrow> int" where
  "word_end line e =
     (if e < int (length line) \<and> test_word (js_index line e) then word_end line (e + 1)
      else e)"
  by pat_completeness auto

termination
  by (relation "measure (\<lambda>(line, e). nat (int (length line) - e))") auto

declare word_end.simps [simp del]

text \<open>\<open>line.substring(start, end)\<close>: both clamped to the string, swapped when out of order.\<close>

definition substring :: "'a list \<Rightarrow> int \<Rightarrow> int \<Rightarrow> 'a list" where
  "substring s a b =
     (let a' = nat (max 0 (min a (int (length s))));
          b' = nat (max 0 (min b (int (length s))))
      in take (max a' b' - min a' b') (drop (min a' b') s))"

definition getWordAtPosition :: "string \<Rightarrow> int \<Rightarrow> string" where
  "getWordAtPosition line character =
     substring line (word_start line character) (word_end line character)"

text \<open>
  The table \<open>docs\<close> is an object literal, so \<open>docs[word]\<close> also finds the members that
  every object inherits, which are functions or objects and so truthy:
  \<open>HoverInherited\<close> is such a value. \<open>HoverNull\<close> is \<open>null\<close>.
\<close>

datatype HoverResult = HoverNull | HoverText string | HoverInherited string

definition hover_docs :: "(string \<times> string) list" where
  "hover_docs =
     [(''let'', ''Variable declaration: `let name = value`''),
      (''fn'', ''Function definition: `fn name(params) { body }`''),
      (''if'', ''Conditional: `if condition { then } else { else }`''),
      (''for'', ''For loop: `for item in array { body }`''),
      (''while'', ''While loop: `while condition { body }`''),
      (''return'', ''Return from function: `return value`''),
      (''print'', ''Built-in function: `print(value)` - Output to console''),
      (''len'', ''Built-in function: `len(array|string)` - Get length'')]"

definition object_prototype_members :: "string list" where
  "object_prototype_members =
     [''constructor'', ''__defineGetter__'', ''__defineSetter__'', ''hasOwnProperty'',
      ''__lookupGetter__'', ''__lookupSetter__'', ''isPrototypeOf'', ''propertyIsEnumerable'',
      ''toString'', ''valueOf'', ''__proto__'', ''toLocaleString'']"

definition getHover :: "DocumentStore \<Rightarrow> string \<Rightarrow> Position \<Rightarrow> HoverResult" where
  "getHover documents uri position =
     (case DocumentStore_get uri documents of
        None \<Rightarrow> HoverNull
      | Some doc \<Rightarrow>
          (let lines = split_lines (doc_text doc);
               line = (case js_index lines (pos_line position) of None \<Rightarrow> [] | Some l \<Rightarrow> l);
               word = getWordAtPosition line (pos_character position)
           in case map_of hover_docs word of
                Some d \<Rightarrow> HoverText d
              | None \<Rightarrow> if word \<in> set object_prototype_members then HoverInherited word
                        else HoverNull))"

section \<open>Transport (runStdio)\<close>

text \<open>
  A chunk is a list of bytes; the buffer is a JavaScript string, a list of UTF-16 code
  units. Both are naturals here.

  \<open>decoder.decode(chunk)\<close> is called without the \<open>stream\<close> option, so each call decodes
  its chunk as a whole text: the UTF-8 decoder of the Encoding Standard, which the
  platform implements, run from its initial state to the end of the chunk. A byte that
  cannot continue or start a sequence, and a sequence cut off by the end of the chunk,
  decode to U+FFFD; a byte order mark at the start of the chunk is dropped.
  The arguments of \<open>utf8_decode\<close> are the decoder's code point, bytes seen, bytes
  needed, lower boundary and upper boundary.
\<close>

function utf8_decode :: "nat \<Rightarrow> nat \<Rightarrow> nat \<Rightarrow> nat \<Rightarrow> nat \<Rightarrow> nat list \<Rightarrow> nat list" where
  "utf8_decode cp seen needed lower upper [] = (if needed \<noteq> 0 then [0xFFFD] else [])"
| "utf8_decode cp seen needed lower upper (b # bs) =
     (if needed = 0 then
        (if b \<le> 0x7F then b # utf8_decode 0 0 0 0x80 0xBF bs
         else if 0xC2 \<le> b \<and> b \<le> 0xDF then utf8_decode (b mod 32) 0 1 0x80 0xBF bs
         else if 0xE0 \<le> b \<and> b \<le> 0xEF then
           utf8_decode (b mod 16) 0 2 (if b = 0xE0 then 0xA0 else 0x80) (if b = 0xED then 0x9F else 0xBF) bs
         else if 0xF0 \<le> b \<and> b \<le> 0xF4 then
           utf8_decode (b mod 8) 0 3 (if b = 0xF0 then 0x90 else 0x80) (if b = 0xF4 then 0x8F else 0xBF) bs
         else 0xFFFD # utf8_decode 0 0 0 0x80 0xBF bs)
      else if b < lower \<or> upper < b then 0xFFFD # utf8_decode 0 0 0 0x80 0xBF (b # bs)
      else if seen + 1 \<noteq> needed then utf8_decode (cp * 64 + b mod 64) (seen + 1) needed 0x80 0xBF bs
      else (cp * 64 + b mod 64) # utf8_decode 0 0 0 0x80 0xBF bs)"
  by pat_completeness auto

termination
  by (relation "measure (\<lambda>(cp, seen, needed, lower, upper, bs). 2 * length bs + (if needed = 0 then 0 else 1))")
     auto

declare utf8_decode.simps [simp del]

text \<open>A code point as UTF-16 code units.\<close>

definition code_units :: "nat \<Rightarrow> nat list" where
  "code_units cp =
     (if cp < 0x10000 then [cp]
      else [0xD800 + (cp - 0x10000) div 0x400, 0xDC00 + (cp - 0x10000) mod 0x400])"

definition TextDecoder_decode :: "nat list \<Rightarrow> nat list" where
  "TextDecoder_decode chunk =
     (let cps = utf8_decode 0 0 0 0x80 0xBF chunk;
          cps = (case cps of [] \<Rightarrow> [] | c # rest \<Rightarrow> if c = 0xFEFF then rest else c # rest)
      in concat (map code_units cps))"

text \<open>\<open>buffer.indexOf(pattern)\<close>: \<open>None\<close> is \<open>-1\<close>.\<close>

fun indexOf :: "'a list \<Rightarrow> 'a list \<Rightarrow> nat option" where
  "indexOf [] pattern = (if pattern = [] then Some 0 else None)"
| "indexOf (c # cs) pattern =
     (if take (length pattern) (c # cs) = pattern then Some 0
      else map_option Suc (indexOf cs pattern))"

definition units :: "string \<Rightarrow> nat list" where
  "units s = map of_char s"

definition isDigit_unit :: "nat \<Rightarrow> bool" where
  "isDigit_unit u = (48 \<le> u \<and> u \<le> 57)"

text \<open>
  The \<open>while (true)\<close> loop of \<open>runStdio\<close> on the buffer: the strings it hands to
  \<open>JSON.parse\<close> and \<open>handleMessage\<close>, in order, and the buffer it leaves. What the
  handler does with a message does not change the buffer.
\<close>

function runStdio_messages :: "nat list \<Rightarrow> nat list list \<times> nat list" where
  "runStdio_messages buffer =
     (case indexOf buffer [13, 10, 13, 10] of
        None \<Rightarrow> ([], buffer)
      | Some headerEnd \<Rightarrow>
          (let header = take headerEnd buffer in
           case match_literal_digits (units ''Content-Length: '') isDigit_unit header of
             None \<Rightarrow> ([], buffer)
           | Some digits \<Rightarrow>
               (let contentLength = parseInt_units digits;
                    messageStart = headerEnd + 4;
                    messageEnd = messageStart + contentLength
                in if length buffer < messageEnd then ([], buffer)
                   else (let messageStr = take contentLength (drop messageStart buffer);
                             (messages, rest) = runStdio_messages (drop messageEnd buffer)
                         in (messageStr # messages, rest)))))"
  by pat_completeness auto

termination
  by (relation "measure length") auto

declare runStdio_messages.simps [simp del]

text \<open>The \<open>for await\<close> loop over the chunks, with \<open>buffer\<close> and the messages dispatched so far.\<close>

fun runStdio_loop :: "nat list list \<Rightarrow> nat list \<Rightarrow> nat list list \<Rightarrow> nat list list \<times> nat list" where
  "runStdio_loop [] buffer dispatched = (dispatched, buffer)"
| "runStdio_loop (chunk # chunks) buffer dispatched =
     (let (messages, rest) = runStdio_messages (buffer @ TextDecoder_decode chunk)
      in runStdio_loop chunks rest (dispatched @ messages))"

definition runStdio :: "nat list list \<Rightarrow> nat list list" where
  "runStdio chunks = fst (runStdio_loop chunks [] [])"

section \<open>Properties\<close>

subsection \<open>Sequencing\<close>

lemma bnd_simps [simp]:
  "bnd None f = None"
  "bnd (Some (Inl e)) f = Some (Inl e)"
  "bnd (Some (Inr x)) f = f x"
  by (simp_all add: bnd_def)

lemma ebind_simps [simp]:
  "ebind (Inl e) g = Inl e"
  "ebind (Inr x) g = g x"
  by (simp_all add: ebind_def)

subsection \<open>The document store\<close>

text \<open>
  Claim C6. \<open>update(uri, text, version)\<close> changes no document stored under another URI;
  it leaves the whole store as it is when the URI is unknown; and when the URI is
  present, the document stored there afterwards has the new text and the new version,
  and the URI and language id it had.
\<close>

theorem DocumentStore_update_frame:
  "(\<forall>other. other \<noteq> uri \<longrightarrow>
      DocumentStore_update uri newText newVersion documents other = documents other)
   \<and> (documents uri = None \<longrightarrow> DocumentStore_update uri newText newVersion documents = documents)
   \<and> (\<forall>doc. documents uri = Some doc \<longrightarrow>
        DocumentStore_update uri newText newVersion documents uri
          = Some \<lparr>doc_uri = doc_uri doc, doc_languageId = doc_languageId doc,
                  doc_version = newVersion, doc_text = newText\<rparr>)"
  by (auto simp: DocumentStore_update_def split: option.splits)

theorem DocumentStore_update_frame_witness:
  "DocumentStore_update ''a'' ''fn'' 2
      [''a'' \<mapsto> \<lparr>doc_uri = ''a'', doc_languageId = ''noteg'', doc_version = 1, doc_text = ''let''\<rparr>,
       ''b'' \<mapsto> \<lparr>doc_uri = ''b'', doc_languageId = ''noteg'', doc_version = 7, doc_text = ''if''\<rparr>] ''b''
     = Some \<lparr>doc_uri = ''b'', doc_languageId = ''noteg'', doc_version = 7, doc_text = ''if''\<rparr>
   \<and> DocumentStore_update ''a'' ''fn'' 2
      [''a'' \<mapsto> \<lparr>doc_uri = ''a'', doc_languageId = ''noteg'', doc_version = 1, doc_text = ''let''\<rparr>,
       ''b'' \<mapsto> \<lparr>doc_uri = ''b'', doc_languageId = ''noteg'', doc_version = 7, doc_text = ''if''\<rparr>] ''a''
     = Some \<lparr>doc_uri = ''a'', doc_languageId = ''noteg'', doc_version = 2, doc_text = ''fn''\<rparr>
   \<and> DocumentStore_update ''c'' ''fn'' 2 Map.empty = Map.empty"
  using DocumentStore_update_frame [where uri = "''a''" and newText = "''fn''" and newVersion = 2 and documents =
      "[''a'' \<mapsto> \<lparr>doc_uri = ''a'', doc_languageId = ''noteg'', doc_version = 1, doc_text = ''let''\<rparr>,
        ''b'' \<mapsto> \<lparr>doc_uri = ''b'', doc_languageId = ''noteg'', doc_version = 7, doc_text = ''if''\<rparr>]"]
    DocumentStore_update_frame [where uri = "''c''" and newText = "''fn''" and newVersion = 2 and documents = Map.empty]
  by simp

subsection \<open>Completion\<close>

text \<open>
  Claim C8. Whatever the documents, the URI and the position, \<open>getCompletions\<close> returns
  the same list: the twelve keyword items (kind 14) in the order let, fn, if, else, for,
  while, return, true, false, and, or, not, then the two function items (kind 3)
  print and len.
\<close>

theorem getCompletions_fixed:
  "getCompletions documents uri position =
     [\<lparr>ci_label = ''let'', ci_kind = 14, ci_detail = Some ''Variable declaration'', ci_documentation = None\<rparr>,
      \<lparr>ci_label = ''fn'', ci_kind = 14, ci_detail = Some ''Function definition'', ci_documentation = None\<rparr>,
      \<lparr>ci_label = ''if'', ci_kind = 14, ci_detail = Some ''Conditional statement'', ci_documentation = None\<rparr>,
      \<lparr>ci_label = ''else'', ci_kind = 14, ci_detail = Some ''Else branch'', ci_documentation = None\<rparr>,
      \<lparr>ci_label = ''for'', ci_kind = 14, ci_detail = Some ''For loop'', ci_documentation = None\<rparr>,
      \<lparr>ci_label = ''while'', ci_kind = 14, ci_detail = Some ''While loop'', ci_documentation = None\<rparr>,
      \<lparr>ci_label = ''return'', ci_kind = 14, ci_detail = Some ''Return statement'', ci_documentation = None\<rparr>,
      \<lparr>ci_label = ''true'', ci_kind = 14, ci_detail = Some ''Boolean true'', ci_documentation = None\<rparr>,
      \<lparr>ci_label = ''false'', ci_kind = 14, ci_detail = Some ''Boolean false'', ci_documentation = None\<rparr>,
      \<lparr>ci_label = ''and'', ci_kind = 14, ci_detail = Some ''Logical AND'', ci_documentation = None\<rparr>,
      \<lparr>ci_label = ''or'', ci_kind = 14, ci_detail = Some ''Logical OR'', ci_documentation = None\<rparr>,
      \<lparr>ci_label = ''not'', ci_kind = 14, ci_detail = Some ''Logical NOT'', ci_documentation = None\<rparr>,
      \<lparr>ci_label = ''print'', ci_kind = 3, ci_detail = Some ''Print to console'',
        ci_documentation = Some ''print(value) - Outputs value to console''\<rparr>,
      \<lparr>ci_label = ''len'', ci_kind = 3, ci_detail = Some ''Get length'',
        ci_documentation = Some ''len(array|string) - Returns the length''\<rparr>]"
  by (simp add: getCompletions_def completion_keywords_def completion_builtins_def)

subsection \<open>Unknown documents\<close>

text \<open>
  Claim C10. For a URI that is not in the store, \<open>analyze\<close> returns the empty list of
  diagnostics (with any bound on the parser, which it does not reach) and \<open>getHover\<close>
  returns \<open>null\<close>; neither throws.
\<close>

theorem unknown_uri:
  "documents uri = None \<Longrightarrow>
     analyze n documents uri = Some (Inr []) \<and> getHover documents uri position = HoverNull"
  by (simp add: analyze_def getHover_def DocumentStore_get_def ret_def)

theorem unknown_uri_witness:
  "analyze 0 Map.empty ''file:///a.noteg'' = Some (Inr [])
   \<and> getHover Map.empty ''file:///a.noteg'' \<lparr>pos_line = 3, pos_character = 4\<rparr> = HoverNull"
  using unknown_uri [where documents = Map.empty and uri = "''file:///a.noteg''" and n = 0
      and position = "\<lparr>pos_line = 3, pos_character = 4\<rparr>"]
  by simp

subsection \<open>Return statements\<close>

lemma advance_not_end:
  "pos < length ts \<Longrightarrow> tok_type (ts ! pos) \<noteq> EOF \<Longrightarrow> advance ts pos = Inr (Some (ts ! pos), pos + 1)"
  by (simp add: advance_def isAtEnd_def peek_def property_def previous_def)

text \<open>
  Claim C7. At a \<open>return\<close> token that is followed by another token, \<open>returnStatement\<close>
  returns a \<open>Return\<close> node without a value, one token further, when the next token is a
  closing brace or the end of input; otherwise it parses an expression after the
  \<open>return\<close> token and the node carries it (and an error of the expression is the error of
  the statement).
\<close>

theorem returnStatement_value:
  assumes "pos + 1 < length ts" and "tok_type (ts ! pos) = RETURN"
  shows "returnStatement n ts pos =
           (if tok_type (ts ! (pos + 1)) = RBRACE \<or> tok_type (ts ! (pos + 1)) = EOF
            then Some (Inr (ReturnNode None, pos + 1))
            else bnd (expression n ts (pos + 1)) (\<lambda>(v, pos'). Some (Inr (ReturnNode (Some v), pos'))))"
  using assms
  by (simp add: returnStatement_def advance_not_end lift_def ret_def not_rbrace_not_end_def
      check_def isAtEnd_def peek_def property_def)

theorem returnStatement_value_witness:
  "returnStatement 20
      [\<lparr>tok_type = RETURN, tok_value = ''return'', tok_line = 1, tok_column = 1\<rparr>,
       \<lparr>tok_type = RBRACE, tok_value = ''}'', tok_line = 1, tok_column = 8\<rparr>,
       \<lparr>tok_type = EOF, tok_value = [], tok_line = 1, tok_column = 9\<rparr>] 0
     = Some (Inr (ReturnNode None, 1))
   \<and> returnStatement 20
      [\<lparr>tok_type = RETURN, tok_value = ''return'', tok_line = 1, tok_column = 1\<rparr>,
       \<lparr>tok_type = IDENTIFIER, tok_value = ''x'', tok_line = 1, tok_column = 8\<rparr>,
       \<lparr>tok_type = EOF, tok_value = [], tok_line = 1, tok_column = 9\<rparr>] 0
     = Some (Inr (ReturnNode (Some (IdentifierNode ''x'')), 2))"
proof -
  have e: "expression 20
      [\<lparr>tok_type = RETURN, tok_value = ''return'', tok_line = 1, tok_column = 1\<rparr>,
       \<lparr>tok_type = IDENTIFIER, tok_value = ''x'', tok_line = 1, tok_column = 8\<rparr>,
       \<lparr>tok_type = EOF, tok_value = [], tok_line = 1, tok_column = 9\<rparr>] 1
     = Some (Inr (IdentifierNode ''x'', 2))"
    by code_simp
  show ?thesis
    using returnStatement_value [where n = 20 and pos = 0 and ts =
        "[\<lparr>tok_type = RETURN, tok_value = ''return'', tok_line = 1, tok_column = 1\<rparr>,
          \<lparr>tok_type = RBRACE, tok_value = ''}'', tok_line = 1, tok_column = 8\<rparr>,
          \<lparr>tok_type = EOF, tok_value = [], tok_line = 1, tok_column = 9\<rparr>]"]
      returnStatement_value [where n = 20 and pos = 0 and ts =
        "[\<lparr>tok_type = RETURN, tok_value = ''return'', tok_line = 1, tok_column = 1\<rparr>,
          \<lparr>tok_type = IDENTIFIER, tok_value = ''x'', tok_line = 1, tok_column = 8\<rparr>,
          \<lparr>tok_type = EOF, tok_value = [], tok_line = 1, tok_column = 9\<rparr>]"]
      e
    by simp
qed

subsection \<open>Transport\<close>

text \<open>
  Claim C4 fails on the code. The bytes below are one message, the notification
  \<open>{"method":"e"}\<close> with a two-byte e acute for the e, under a
  header that declares its 15 bytes. Read as one chunk, the text in the buffer has 14
  code units after the header, fewer than the 15 the header declares, and nothing is
  dispatched. Read as two chunks that split the two bytes of the letter, each half
  decodes to U+FFFD, the buffer has 15 code units, and a message is dispatched, with two
  U+FFFD where the letter was.
\<close>

theorem runStdio_chunk_dependence:
  "runStdio [units ''Content-Length: 15'' @ [13, 10, 13, 10]
               @ [123, 34] @ units ''method'' @ [34, 58, 34] @ [0xC3, 0xA9] @ [34, 125]] = []
   \<and> runStdio [units ''Content-Length: 15'' @ [13, 10, 13, 10]
               @ [123, 34] @ units ''method'' @ [34, 58, 34] @ [0xC3],
             [0xA9] @ [34, 125]]
     = [[123, 34] @ units ''method'' @ [34, 58, 34] @ [0xFFFD, 0xFFFD] @ [34, 125]]"
  by (simp add: runStdio_def runStdio_messages.simps units_def TextDecoder_decode_def
      utf8_decode.simps code_units_def isDigit_unit_def parseInt_units_def)

end
